theory Spec2Isabelle
  imports Main
begin

section \<open>Errors\<close>

text \<open>
  Go error values. The sentinel errors of the packages \<open>core\<close>, \<open>token\<close>, \<open>redis\<close>,
  \<open>net\<close>, \<open>syscall\<close>, \<open>os\<close> and \<open>io\<close> are constructors; \<open>Opaque\<close> is any other error of a
  collaborator (a store fault, an I/O error); \<open>Wrap msg e\<close> is
  \<open>fmt.Errorf("msg: %w", e)\<close>.
\<close>

datatype err =
    ErrFailedToConnect
  | ErrKeyIDNotFound
  | ErrConnClosed
  | ErrInvalidTypeSuffix
  | ErrDuplicateTokenID
  | ErrTokenNotFound
  | RedisNil
  | NetErrClosed
  | ECONNRESET
  | ErrDeadlineExceeded
  | ErrUnexpectedEOF
  | Opaque string
  | Wrap string err

text \<open>
  \<open>errors.Is\<close>: the error itself or any error down its chain of wrapped errors;
  a nil error is no error at all.
\<close>

fun chain_Is :: "err \<Rightarrow> err \<Rightarrow> bool" where
  "chain_Is (Wrap msg e) target = (Wrap msg e = target \<or> chain_Is e target)"
| "chain_Is e target = (e = target)"

definition errors_Is :: "err option \<Rightarrow> err \<Rightarrow> bool" where
  "errors_Is e target = (case e of None \<Rightarrow> False | Some x \<Rightarrow> chain_Is x target)"

section \<open>Tokens\<close>

datatype TokenType = TokenTypeWeb | TokenTypeTCP

record Token =
  ID :: string
  Secret :: string
  Type :: TokenType
  TTL :: int

text \<open>\<open>strings.LastIndex\<close> for a single byte: the position of its last occurrence.\<close>

fun LastIndex :: "string \<Rightarrow> char \<Rightarrow> nat option" where
  "LastIndex [] c = None"
| "LastIndex (x # xs) c =
     (case LastIndex xs c of
        Some i \<Rightarrow> Some (Suc i)
      | None \<Rightarrow> if x = c then Some 0 else None)"

text \<open>
  Modelled from the spec: \<open>token.ExtractIDAndType\<close> (package \<open>pkg/core/token\<close>, whose
  source is not among the sources verified here). The spec: the key is split at its last
  \<open>-\<close> into the base ID and the type character; \<open>w\<close> is a web token, \<open>t\<close> a TCP
  token, anything else is \<open>InvalidTypeSuffix\<close>; a key with no suffix is rejected.
\<close>

definition ExtractIDAndType :: "string \<Rightarrow> err + string \<times> TokenType" where
  "ExtractIDAndType idWithSuffix =
     (case LastIndex idWithSuffix (CHR ''-'') of
        None \<Rightarrow> Inl ErrInvalidTypeSuffix
      | Some i \<Rightarrow>
          (let baseID = take i idWithSuffix; suffix = drop (Suc i) idWithSuffix
           in if suffix = ''w'' then Inr (baseID, TokenTypeWeb)
              else if suffix = ''t'' then Inr (baseID, TokenTypeTCP)
              else Inl ErrInvalidTypeSuffix))"

text \<open>The spec's words for a key that carries a valid type suffix: it ends in \<open>-w\<close> or \<open>-t\<close>.\<close>

definition has_valid_type_suffix :: "string \<Rightarrow> bool" where
  "has_valid_type_suffix k =
     (2 \<le> length k \<and> (drop (length k - 2) k = ''-w'' \<or> drop (length k - 2) k = ''-t''))"

section \<open>The Redis store\<close>

text \<open>
  The \<open>Redis\<close> interface of the auth repository, as a key-value state: each key holds
  a value and the expiration it was set with. \<open>fault\<close> is set when the store is
  unreachable: every command then answers with that error. \<open>log\<close> records the commands
  that reached the store.
\<close>

datatype cmd =
    CmdGet string
  | CmdExists string
  | CmdSetNX string string int
  | CmdDel string
  | CmdPing

record redis =
  kv :: "string \<rightharpoonup> string \<times> int"
  fault :: "string option"
  log :: "cmd list"

definition db_Get :: "redis \<Rightarrow> string \<Rightarrow> (string \<times> err option) \<times> redis" where
  "db_Get d k =
     ((case fault d of
         Some f \<Rightarrow> ('''', Some (Opaque f))
       | None \<Rightarrow> (case kv d k of None \<Rightarrow> ('''', Some RedisNil) | Some (v, _) \<Rightarrow> (v, None))),
      d\<lparr>log := log d @ [CmdGet k]\<rparr>)"

definition db_Exists :: "redis \<Rightarrow> string \<Rightarrow> (int \<times> err option) \<times> redis" where
  "db_Exists d k =
     ((case fault d of
         Some f \<Rightarrow> (0, Some (Opaque f))
       | None \<Rightarrow> (case kv d k of None \<Rightarrow> (0, None) | Some _ \<Rightarrow> (1, None))),
      d\<lparr>log := log d @ [CmdExists k]\<rparr>)"

text \<open>
  \<open>SetNX\<close> of go-redis sends expiration 0 as \<open>SETNX k v\<close> (no expiry), \<open>KeepTTL\<close>
  (-1) as \<open>SET k v KEEPTTL NX\<close> and any other expiration as \<open>SET k v PX|EX n NX\<close>;
  the server refuses the command when \<open>n\<close> is not positive, which is the case for every
  other negative expiration, before it looks at the key.
\<close>

definition KeepTTL :: int where
  "KeepTTL = -1"

definition expire_accepted :: "int \<Rightarrow> bool" where
  "expire_accepted expiration = (0 \<le> expiration \<or> expiration = KeepTTL)"

definition db_SetNX :: "redis \<Rightarrow> string \<Rightarrow> string \<Rightarrow> int \<Rightarrow> (bool \<times> err option) \<times> redis" where
  "db_SetNX d k v expiration =
     (case fault d of
        Some f \<Rightarrow> ((False, Some (Opaque f)), d\<lparr>log := log d @ [CmdSetNX k v expiration]\<rparr>)
      | None \<Rightarrow>
          if \<not> expire_accepted expiration
          then ((False, Some (Opaque ''ERR invalid expire time'')),
                d\<lparr>log := log d @ [CmdSetNX k v expiration]\<rparr>)
          else
            (case kv d k of
               None \<Rightarrow> ((True, None),
                         d\<lparr>kv := (kv d)(k \<mapsto> (v, expiration)),
                           log := log d @ [CmdSetNX k v expiration]\<rparr>)
             | Some _ \<Rightarrow> ((False, None), d\<lparr>log := log d @ [CmdSetNX k v expiration]\<rparr>)))"

definition db_Del :: "redis \<Rightarrow> string \<Rightarrow> (int \<times> err option) \<times> redis" where
  "db_Del d k =
     (case fault d of
        Some f \<Rightarrow> ((0, Some (Opaque f)), d\<lparr>log := log d @ [CmdDel k]\<rparr>)
      | None \<Rightarrow>
          (case kv d k of
             None \<Rightarrow> ((0, None), d\<lparr>log := log d @ [CmdDel k]\<rparr>)
           | Some _ \<Rightarrow> ((1, None), d\<lparr>kv := (kv d)(k := None), log := log d @ [CmdDel k]\<rparr>)))"

section \<open>The auth repository\<close>

definition scryptPrefix :: string where
  "scryptPrefix = ''sc:''"

definition apiKeyPrefix :: string where
  "apiKeyPrefix = ''API_KEY::''"

record Repo =
  db :: redis
  keyPrefix :: string
  salt :: string

subsection \<open>\<open>base64.StdEncoding.EncodeToString\<close>\<close>

definition b64_alphabet :: string where
  "b64_alphabet = ''ABCDEFGHIJKLMNOPQRSTUVWXYZabcdefghijklmnopqrstuvwxyz0123456789+/''"

definition b64 :: "nat \<Rightarrow> char" where
  "b64 n = b64_alphabet ! (n mod 64)"

fun EncodeToString :: "string \<Rightarrow> string" where
  "EncodeToString (a # b # c # rest) =
     (let n = of_char a * 65536 + of_char b * 256 + of_char c
      in [b64 (n div 262144), b64 (n div 4096), b64 (n div 64), b64 n] @ EncodeToString rest)"
| "EncodeToString [a, b] =
     (let n = of_char a * 65536 + of_char b * 256
      in [b64 (n div 262144), b64 (n div 4096), b64 (n div 64), CHR ''=''])"
| "EncodeToString [a] =
     (let n = of_char a * 65536
      in [b64 (n div 262144), b64 (n div 4096), CHR ''='', CHR ''=''])"
| "EncodeToString [] = []"

subsection \<open>\<open>hashSecret\<close>\<close>

text \<open>
  \<open>scrypt.Key(password, salt, N, r, p, keyLen)\<close> belongs to \<open>golang.org/x/crypto\<close>;
  it is a parameter of the model: given the password, the salt and the four cost
  parameters it answers with the derived key or an error.
\<close>

type_synonym scrypt_Key = "string \<Rightarrow> string \<Rightarrow> nat \<Rightarrow> nat \<Rightarrow> nat \<Rightarrow> nat \<Rightarrow> string \<times> err option"

definition hashSecret :: "scrypt_Key \<Rightarrow> string \<Rightarrow> string \<Rightarrow> string \<times> err option" where
  "hashSecret scrypt secret slt =
     (case scrypt secret slt (2 ^ 15) 8 1 32 of
        (dk, Some e) \<Rightarrow> ('''', Some (Wrap ''failed to hash secret'' e))
      | (dk, None) \<Rightarrow> (scryptPrefix @ EncodeToString dk, None))"

subsection \<open>Repository operations\<close>

definition IsKeyExists :: "Repo \<Rightarrow> string \<Rightarrow> (bool \<times> err option) \<times> Repo" where
  "IsKeyExists r keyID =
     (case db_Exists (db r) (keyPrefix r @ keyID) of
        ((n, Some e), d') \<Rightarrow> ((False, Some (Wrap ''failed to check key existence'' e)), r\<lparr>db := d'\<rparr>)
      | ((n, None), d') \<Rightarrow>
          (if n = 0 then ((False, None), r\<lparr>db := d'\<rparr>)
           else ((True, None), r\<lparr>db := d'\<rparr>)))"

definition Verify :: "scrypt_Key \<Rightarrow> Repo \<Rightarrow> string \<Rightarrow> string \<Rightarrow> (Token option \<times> err option) \<times> Repo" where
  "Verify scrypt r keyIDWithSuffix secret =
     (case hashSecret scrypt secret (salt r) of
        (_, Some e) \<Rightarrow> ((None, Some (Wrap ''failed to hash secret'' e)), r)
      | (secretHash, None) \<Rightarrow>
          (case ExtractIDAndType keyIDWithSuffix of
             Inl e \<Rightarrow>
               ((None, Some (Wrap ''failed to extract token type from key ID'' e)), r)
           | Inr (baseKeyID, tokenType) \<Rightarrow>
               (case db_Get (db r) (keyPrefix r @ apiKeyPrefix @ baseKeyID) of
                  ((v, None), d') \<Rightarrow>
                    (if v \<noteq> secretHash then ((None, None), r\<lparr>db := d'\<rparr>)
                     else ((Some \<lparr>ID = baseKeyID, Secret = '''', Type = tokenType, TTL = 0\<rparr>, None),
                           r\<lparr>db := d'\<rparr>))
                | ((v, Some e), d') \<Rightarrow>
                    (if e = RedisNil then ((None, None), r\<lparr>db := d'\<rparr>)
                     else ((None, Some (Wrap ''failed to get key'' e)), r\<lparr>db := d'\<rparr>)))))"

definition SaveToken :: "scrypt_Key \<Rightarrow> Repo \<Rightarrow> Token \<Rightarrow> err option \<times> Repo" where
  "SaveToken scrypt r t =
     (case hashSecret scrypt (Secret t) (salt r) of
        (_, Some e) \<Rightarrow> (Some (Wrap ''failed to encrypt secret'' e), r)
      | (secretHash, None) \<Rightarrow>
          (case db_SetNX (db r) (keyPrefix r @ apiKeyPrefix @ ID t) secretHash (TTL t) of
             ((_, Some e), d') \<Rightarrow> (Some (Wrap ''failed to save token'' e), r\<lparr>db := d'\<rparr>)
           | ((ok, None), d') \<Rightarrow>
               (if \<not> ok then (Some ErrDuplicateTokenID, r\<lparr>db := d'\<rparr>)
                else (None, r\<lparr>db := d'\<rparr>))))"

definition DeleteToken :: "Repo \<Rightarrow> string \<Rightarrow> err option \<times> Repo" where
  "DeleteToken r tokenID =
     (case db_Del (db r) (keyPrefix r @ apiKeyPrefix @ tokenID) of
        ((_, Some e), d') \<Rightarrow> (Some (Wrap ''failed to delete token'' e), r\<lparr>db := d'\<rparr>)
      | ((n, None), d') \<Rightarrow>
          (if n = 0 then (Some ErrTokenNotFound, r\<lparr>db := d'\<rparr>)
           else (None, r\<lparr>db := d'\<rparr>)))"

section \<open>Connections and half-close\<close>

text \<open>
  A \<open>net.Conn\<close> value with state \<open>'s\<close>. \<open>Conn\<close> is a connection of some dynamic
  type of its own: it has a \<open>Close\<close> method and, when its type implements it, a
  \<open>CloseWrite\<close> method (a TCP connection has one, a yamux stream has none). The client's
  \<open>connWrapper\<close> and the server's \<open>yamuxStreamWrapper\<close> embed a \<open>net.Conn\<close>. A method
  changes the state of the connection and answers with an error or nil.
\<close>

datatype 's netConn =
    Conn "'s \<Rightarrow> err option \<times> 's" "('s \<Rightarrow> err option \<times> 's) option"
  | connWrapper "'s netConn"
  | yamuxStreamWrapper "'s netConn"

text \<open>\<open>Close\<close> of a wrapper is the embedded connection's, promoted.\<close>

fun Close :: "'s netConn \<Rightarrow> 's \<Rightarrow> err option \<times> 's" where
  "Close (Conn cl cw) = cl"
| "Close (connWrapper c) = Close c"
| "Close (yamuxStreamWrapper c) = Close c"

text \<open>
  \<open>CloseWrite\<close>, when the dynamic type has the method (\<open>None\<close>: it has not, and the
  type assertion \<open>conn.(Conn)\<close> fails). Both wrappers define it as \<open>return w.Close()\<close>.
\<close>

fun CloseWrite :: "'s netConn \<Rightarrow> ('s \<Rightarrow> err option \<times> 's) option" where
  "CloseWrite (Conn cl cw) = cw"
| "CloseWrite (connWrapper c) = Some (Close (connWrapper c))"
| "CloseWrite (yamuxStreamWrapper c) = Some (Close (yamuxStreamWrapper c))"

definition wrapConn :: "'s netConn \<Rightarrow> 's netConn" where
  "wrapConn c = (case CloseWrite c of Some _ \<Rightarrow> c | None \<Rightarrow> connWrapper c)"

section \<open>The core service\<close>

text \<open>
  The handlers of the core service call their collaborators (the two connection
  managers, the auth repository, the reverse connection, the protocol server) and decide
  on what these answer. The answers are the handler's environment; the handler returns
  its error (or nil) together with the calls and log lines it made, in order. What other
  goroutines do on the handler's behalf is listed at the point where the handler waits
  for them.
\<close>

type_synonym uuid = nat

datatype manager = webConnMng | tcpConnMng

datatype level = Debug | Info | Error

datatype event =
    Log level string
  | RequestConnection manager string
  | AuthIsKeyExists string
  | WaitConn uuid
  | CancelRequest manager uuid
  | WriteData string
  | WriteInitial
  | CloseRevConn
  | AuthVerify string string
  | Process
  | Allocate string
  | Release string
  | GenerateEndpoint string
  | SendURLToConnectUpdatedEvent string
  | AddConnection manager string uuid
  | RemoveConnection manager string uuid
  | GoAcceptV2Streams manager string
  | Ping
  | NewCloseNotifier
  | ResolveRequest manager uuid
  | WaitClose
  | CancelContext
  | SetReadDeadline "int option"
  | ReadFull nat
  | Write "nat list"
  | CloseStream

subsection \<open>The pipes\<close>

text \<open>
  \<open>pipeToDest\<close>, from the result of its \<open>io.Copy\<close> and of the \<open>CloseWrite\<close> that
  follows a copy without error.
\<close>

definition pipeToDest :: "int \<times> err option \<Rightarrow> err option \<Rightarrow> err option" where
  "pipeToDest copy closeWrite =
     (case copy of (n, err) \<Rightarrow>
        if errors_Is err NetErrClosed \<or> errors_Is err ECONNRESET then Some ErrConnClosed
        else (case err of
                Some e \<Rightarrow> Some (Wrap ''error copying from reverse connection'' e)
              | None \<Rightarrow>
                  (case closeWrite of
                     Some e \<Rightarrow>
                       if \<not> errors_Is (Some e) NetErrClosed
                       then Some (Wrap ''failed to close write end of reverse connection'' e)
                       else None
                   | None \<Rightarrow> None)))"

text \<open>\<open>pipeToSource\<close>: the number of bytes it stores in \<open>*written\<close>, and its error.\<close>

definition pipeToSource :: "int \<times> err option \<Rightarrow> int \<times> err option" where
  "pipeToSource copy =
     (case copy of (n, err) \<Rightarrow>
        (n,
         if errors_Is err NetErrClosed \<or> errors_Is err ECONNRESET then Some ErrConnClosed
         else (case err of
                 Some e \<Rightarrow> Some (Wrap ''error copying to reverse connection'' e)
               | None \<Rightarrow> Some ErrConnClosed)))"

text \<open>
  \<open>errgroup.Group.Wait\<close> answers with the first error that one of its functions
  returned; which of the two pipes returns first is up to the scheduler.
\<close>

datatype pipe = ToDest | ToSource

definition eg_Wait :: "pipe \<Rightarrow> err option \<Rightarrow> err option \<Rightarrow> err option" where
  "eg_Wait first errDest errSource =
     (case first of
        ToDest \<Rightarrow> (case errDest of Some e \<Rightarrow> Some e | None \<Rightarrow> errSource)
      | ToSource \<Rightarrow> (case errSource of Some e \<Rightarrow> Some e | None \<Rightarrow> errDest))"

subsection \<open>End-user connections\<close>

record edge_env =
  requestConnection :: "uuid \<times> err option"
  isKeyExists :: "bool \<times> err option"
  waitConn :: "err option"
  writeData :: "err option"
  writeInitial :: "err option"
  copyToRev :: "int \<times> err option"
  closeWriteRev :: "err option"
  copyToUser :: "int \<times> err option"
  firstReturned :: pipe

definition HandleHTTPConnection :: "edge_env \<Rightarrow> string \<Rightarrow> string \<Rightarrow> err option \<times> event list" where
  "HandleHTTPConnection env keyID clientIP =
     (let closing = [Log Debug ''closing HTTP connection''];
          t0 = [Log Debug ''new HTTP connection'', RequestConnection webConnMng keyID];
          (reqID, err) = requestConnection env
      in if errors_Is err ErrKeyIDNotFound then
           (case isKeyExists env of
              (ok, Some e) \<Rightarrow>
                (Some (Wrap ''failed to check key existence'' e),
                 t0 @ [AuthIsKeyExists keyID] @ closing)
            | (ok, None) \<Rightarrow>
                if \<not> ok
                then (Some (Wrap (''keyID '' @ keyID @ '' not found'') ErrKeyIDNotFound),
                      t0 @ [AuthIsKeyExists keyID] @ closing)
                else (Some (Wrap (''no connections available for keyID '' @ keyID) ErrFailedToConnect),
                      t0 @ [AuthIsKeyExists keyID] @ closing))
         else if err \<noteq> None then
           (Some (Wrap ''failed to request connection'' ErrFailedToConnect), t0 @ closing)
         else if waitConn env \<noteq> None then
           (Some (Wrap ''connection request failed'' ErrFailedToConnect),
            t0 @ [WaitConn reqID, CancelRequest webConnMng reqID] @ closing)
         else
           (let t1 = t0 @ [WaitConn reqID, Log Debug ''connection received'', WriteData clientIP]
            in if writeData env \<noteq> None then
                 (Some (Wrap ''failed to write client connection meta'' ErrFailedToConnect),
                  t1 @ [Log Debug ''failed to write client connection meta''] @ closing)
               else if writeInitial env \<noteq> None then
                 (Some (Wrap ''failed to write initial request'' ErrFailedToConnect),
                  t1 @ [WriteInitial, Log Debug ''failed to write initial request''] @ closing)
               else
                 (let t2 = t1 @ [WriteInitial];
                      (respBytesWritten, errSource) = pipeToSource (copyToUser env);
                      errDest = pipeToDest (copyToRev env) (closeWriteRev env);
                      err = eg_Wait (firstReturned env) errDest errSource
                  in if respBytesWritten \<le> 0 then
                       (Some (Wrap ''no data written to reverse connection'' ErrFailedToConnect),
                        t2 @ [Log Debug ''no data written to reverse connection'', CloseRevConn] @ closing)
                     else (case err of
                             Some e \<Rightarrow>
                               if \<not> errors_Is err ErrConnClosed
                               then (Some (Wrap ''failed to copy data'' e),
                                     t2 @ [Log Debug ''failed to copy data'', CloseRevConn] @ closing)
                               else (None, t2 @ [CloseRevConn] @ closing)
                           | None \<Rightarrow> (None, t2 @ [CloseRevConn] @ closing)))))"

definition HandleTCPConnection :: "edge_env \<Rightarrow> string \<Rightarrow> string \<Rightarrow> err option \<times> event list" where
  "HandleTCPConnection env keyID clientIP =
     (let closing = [Log Debug ''closing TCP connection''];
          t0 = [Log Debug ''new TCP connection'', RequestConnection tcpConnMng keyID];
          (reqID, err) = requestConnection env
      in if errors_Is err ErrKeyIDNotFound then
           (case isKeyExists env of
              (ok, Some authErr) \<Rightarrow>
                (Some (Wrap ''failed to check key existence'' authErr),
                 t0 @ [AuthIsKeyExists keyID] @ closing)
            | (ok, None) \<Rightarrow>
                if \<not> ok
                then (Some (Wrap (''keyID '' @ keyID @ '' not found'') ErrKeyIDNotFound),
                      t0 @ [AuthIsKeyExists keyID] @ closing)
                else (Some (Wrap (''no connections available for keyID '' @ keyID) ErrFailedToConnect),
                      t0 @ [AuthIsKeyExists keyID] @ closing))
         else if err \<noteq> None then
           (Some (Wrap ''failed to request TCP connection'' ErrFailedToConnect), t0 @ closing)
         else if waitConn env \<noteq> None then
           (Some (Wrap ''TCP connection request failed'' ErrFailedToConnect),
            t0 @ [WaitConn reqID, CancelRequest tcpConnMng reqID] @ closing)
         else
           (let t1 = t0 @ [WaitConn reqID, Log Debug ''TCP reverse connection received'',
                           WriteData clientIP]
            in if writeData env \<noteq> None then
                 (Some (Wrap ''failed to write TCP client connection meta'' ErrFailedToConnect),
                  t1 @ [Log Debug ''failed to write TCP client connection meta'', CloseRevConn]
                     @ closing)
               else
                 (let (respBytesWritten, errSource) = pipeToSource (copyToUser env);
                      errDest = pipeToDest (copyToRev env) (closeWriteRev env);
                      err = eg_Wait (firstReturned env) errDest errSource
                  in if err \<noteq> None \<and> \<not> errors_Is err ErrConnClosed
                     then (None, t1 @ [Log Debug ''TCP data pipe closed'', CloseRevConn] @ closing)
                     else (None, t1 @ [CloseRevConn] @ closing))))"

subsection \<open>Time-outs\<close>

text \<open>
  Durations and points in time are nanoseconds, as \<open>time.Duration\<close>. A point in time
  counts from the moment the handler at hand was called.
\<close>

definition Second :: int where
  "Second = 1000000000"

definition connectionTimeout :: int where
  "connectionTimeout = 5 * Second"


text \<open>
  \<open>timeoutContext\<close>: whether the timer goroutine has called \<open>cancel()\<close> on the derived
  context when the returned function is called after \<open>elapsed\<close>. With a timeout that
  is not positive there is no timer. (When the timer and the call fall together the
  \<open>select\<close> may take either; the model lets the call win.)
\<close>

definition timeoutContext :: "int \<Rightarrow> int \<Rightarrow> bool" where
  "timeoutContext timeout elapsed = (if timeout \<le> 0 then False else timeout < elapsed)"

text \<open>\<open>%d\<close> of a number that is not negative.\<close>

function itoa :: "nat \<Rightarrow> string" where
  "itoa n = (if n < 10 then [char_of (48 + n)]
             else itoa (n div 10) @ [char_of (48 + n mod 10)])"
  by pat_completeness auto
termination
  by (relation "measure id") auto

declare itoa.simps [simp del]

subsection \<open>Reverse connections\<close>

text \<open>
  The protocol server \<open>proto.ServerV2\<close> (module \<open>github.com/ksysoev/revdial\<close>) runs the
  handshake in \<open>Process\<close>; on an \<open>Auth\<close> command it calls the callback given with
  \<open>proto.WithUserPassAuth\<close>. Its answers after \<open>Process\<close> are part of the environment,
  as is the time \<open>Process\<close> takes to return (\<open>handshakeElapsed\<close>): \<open>Process\<close> is
  not given the context that the timer of \<open>timeoutContext\<close> cancels.
\<close>

datatype proto_State = StateRegistered | StateBound | StateOther nat

text \<open>One round of the keepalive loop: the context is done, or a ping is sent.\<close>

datatype tick = ContextDone | PingOK | PingFailed err

record rev_env =
  credentials :: "(string \<times> string) option"
  authVerify :: "string \<Rightarrow> string \<Rightarrow> bool \<times> TokenType \<times> err option"
  handshakeElapsed :: int
  processErr :: "err option"
  IsV2 :: bool
  State :: proto_State
  servConnID :: uuid
  srvConnID :: uuid
  allocate :: "string \<Rightarrow> string \<times> err option"
  endpointGenerator :: "string \<Rightarrow> string \<times> err option"
  sendURLToConnectUpdatedEvent :: "err option"
  ticks :: "tick list"
  newCloseNotifier :: "err option"
  waitCloseReturns :: bool

text \<open>
  The callback of \<open>proto.WithUserPassAuth\<close>: whether the credentials are accepted, and
  the \<open>connKeyID\<close> and \<open>connTokenType\<close> it assigns when they are.
\<close>

definition userPassAuth ::
  "rev_env \<Rightarrow> string \<Rightarrow> string \<Rightarrow> bool \<times> (string \<times> TokenType) option \<times> event list" where
  "userPassAuth env keyID secret =
     (case authVerify env keyID secret of
        (valid, tokenType, err) \<Rightarrow>
          if err = None \<and> valid then
            (let baseID = (case ExtractIDAndType keyID of Inr (b, _) \<Rightarrow> b | Inl _ \<Rightarrow> [])
             in (True, Some (baseID, tokenType), [AuthVerify keyID secret]))
          else if err \<noteq> None then
            (False, None, [AuthVerify keyID secret, Log Error ''failed to verify user''])
          else (False, None, [AuthVerify keyID secret]))"

text \<open>
  The keepalive loop of a registered connection: whether it has returned after the
  rounds given, and the pings it sent.
\<close>

fun pingLoop :: "tick list \<Rightarrow> bool \<times> event list" where
  "pingLoop [] = (False, [])"
| "pingLoop (ContextDone # ts) = (True, [])"
| "pingLoop (PingOK # ts) = (case pingLoop ts of (returned, evs) \<Rightarrow> (returned, Ping # evs))"
| "pingLoop (PingFailed e # ts) = (True, [Ping, Log Debug ''ping failed''])"

text \<open>
  \<open>HandleReverseConn\<close>. The result is \<open>None\<close> while the handler has not returned (the
  keepalive loop still runs, or \<open>WaitClose\<close> still blocks), \<open>Some err\<close> once it has.
  \<open>CancelContext\<close> is the timer's \<open>cancel()\<close>, listed where the handler calls
  \<open>cancelTimeout()\<close>; \<open>WaitClose\<close> returns when the notifier is closed or the context
  is done.
\<close>

definition HandleReverseConn :: "rev_env \<Rightarrow> err option option \<times> event list" where
  "HandleReverseConn env =
     (let closing = [Log Debug ''closing connection''];
          (assigned, authEvents) =
            (case credentials env of
               None \<Rightarrow> (None, [])
             | Some (keyID, secret) \<Rightarrow>
                 (case userPassAuth env keyID secret of (ok, a, evs) \<Rightarrow> (a, evs)));
          connKeyID = (case assigned of Some (k, _) \<Rightarrow> k | None \<Rightarrow> []);
          connTokenType = (case assigned of Some (_, ty) \<Rightarrow> Some ty | None \<Rightarrow> None);
          cancelled = timeoutContext connectionTimeout (handshakeElapsed env);
          t0 = [Log Debug ''new connection'', Process] @ authEvents
               @ (if cancelled then [CancelContext] else [])
      in if processErr env \<noteq> None then
           (Some None, t0 @ [Log Debug ''failed to process connection''] @ closing)
         else
           (let t1 = t0 @ [Log Debug ''connection processed''];
                connMng = (if connTokenType = Some TokenTypeTCP then tcpConnMng else webConnMng)
            in case State env of
                 StateRegistered \<Rightarrow>
                   (let (endpoint, epErr, epEvents, release) =
                          (if connTokenType = Some TokenTypeTCP
                           then (case allocate env connKeyID of
                                   (ep, e) \<Rightarrow> (ep, e, [Allocate connKeyID], [Release connKeyID]))
                           else (case endpointGenerator env connKeyID of
                                   (ep, e) \<Rightarrow> (ep, e, [GenerateEndpoint connKeyID], [])))
                    in case epErr of
                         Some e \<Rightarrow>
                           (Some (Some (Wrap (if connTokenType = Some TokenTypeTCP
                                              then ''failed to allocate TCP endpoint''
                                              else ''failed to generate endpoint'') e)),
                            t1 @ epEvents @ closing)
                       | None \<Rightarrow>
                           (case sendURLToConnectUpdatedEvent env of
                              Some e \<Rightarrow>
                                (Some (Some (Wrap ''failed to send url to connect updated event'' e)),
                                 t1 @ epEvents @ [SendURLToConnectUpdatedEvent endpoint]
                                    @ release @ closing)
                            | None \<Rightarrow>
                                (let t2 = t1 @ epEvents
                                        @ [SendURLToConnectUpdatedEvent endpoint,
                                           AddConnection connMng connKeyID (srvConnID env),
                                           Log Info ''control conn established'']
                                        @ (if IsV2 env then [GoAcceptV2Streams connMng connKeyID]
                                           else [])
                                 in case pingLoop (ticks env) of
                                      (returned, pings) \<Rightarrow>
                                        if returned
                                        then (Some None,
                                              t2 @ pings
                                                 @ [RemoveConnection connMng connKeyID (srvConnID env)]
                                                 @ release @ closing)
                                        else (None, t2 @ pings))))
               | StateBound \<Rightarrow>
                   (case newCloseNotifier env of
                      Some e \<Rightarrow>
                        (Some (Some (Wrap ''failed to create close notifier'' e)),
                         t1 @ [NewCloseNotifier] @ closing)
                    | None \<Rightarrow>
                        (let t2 = t1 @ [NewCloseNotifier, ResolveRequest connMng (servConnID env),
                                        Log Info ''rev conn established'', WaitClose]
                         in if cancelled \<or> waitCloseReturns env
                            then (Some None, t2 @ [Log Debug ''bound connection closed''] @ closing)
                            else (None, t2)))
               | StateOther n \<Rightarrow>
                   (Some (Some (Opaque (''unexpected state while handling incomming connection: ''
                                         @ itoa n))),
                    t1 @ closing)))"

subsection \<open>V2 streams\<close>








text \<open>Calls that hand a connection to a connection manager.\<close>

fun registers :: "event \<Rightarrow> bool" where
  "registers (AddConnection m k u) = True"
| "registers (ResolveRequest m u) = True"
| "registers ev = False"

section \<open>Sample inputs\<close>

text \<open>
  A stand-in for \<open>scrypt.Key\<close> that never fails, with which the repository runs on
  concrete inputs: its key is the first \<open>keyLen\<close> bytes of the password followed by
  the salt.
\<close>

definition sample_scrypt :: scrypt_Key where
  "sample_scrypt password slt N r p keyLen = (take keyLen (password @ slt), None)"

text \<open>The repository and the token of \<open>TestRepo_SaveToken\<close>, on an empty store.\<close>

definition repo0 :: Repo where
  "repo0 = \<lparr>db = \<lparr>kv = Map.empty, fault = None, log = []\<rparr>,
            keyPrefix = ''prefix::'', salt = ''test-salt''\<rparr>"

definition token0 :: Token where
  "token0 = \<lparr>ID = ''test-id'', Secret = ''test-secret'', Type = TokenTypeWeb,
             TTL = 60000000000\<rparr>"

text \<open>The token of \<open>TestRepo_SaveToken\<close> with a TTL of minus five seconds.\<close>

definition token_negative_ttl :: Token where
  "token_negative_ttl = \<lparr>ID = ''test-id'', Secret = ''test-secret'', Type = TokenTypeWeb,
                          TTL = - 5000000000\<rparr>"

text \<open>The same repository on a store that cannot be reached.\<close>

definition repo_down :: Repo where
  "repo_down = \<lparr>db = \<lparr>kv = Map.empty, fault = Some ''connection refused'', log = []\<rparr>,
                keyPrefix = ''prefix::'', salt = ''test-salt''\<rparr>"

text \<open>
  An end-user connection whose reverse stream is bound and takes the request, while
  nothing comes back; the same with an unknown key, with a known key that has no
  tunnel, and with a copy towards the reverse stream that breaks.
\<close>

definition env_flowing :: edge_env where
  "env_flowing = \<lparr>requestConnection = (7, None), isKeyExists = (True, None), waitConn = None,
     writeData = None, writeInitial = None, copyToRev = (120, None), closeWriteRev = None,
     copyToUser = (0, None), firstReturned = ToDest\<rparr>"

definition env_unknown_key :: edge_env where
  "env_unknown_key = env_flowing\<lparr>requestConnection := (0, Some ErrKeyIDNotFound),
     isKeyExists := (False, None)\<rparr>"

definition env_tunnel_down :: edge_env where
  "env_tunnel_down = env_flowing\<lparr>requestConnection := (0, Some ErrKeyIDNotFound),
     isKeyExists := (True, None)\<rparr>"

definition env_broken_pipe :: edge_env where
  "env_broken_pipe = env_flowing\<lparr>copyToRev := (3, Some (Opaque ''broken pipe''))\<rparr>"

text \<open>A reverse connection whose credentials the auth repository does not accept.\<close>

definition env_bad_credentials :: rev_env where
  "env_bad_credentials =
     \<lparr>credentials = Some (''demo-w'', ''wrong''),
      authVerify = (\<lambda>keyID secret. (False, TokenTypeWeb, None)),
      handshakeElapsed = Second,
      processErr = Some (Opaque ''authentication failed''),
      IsV2 = False, State = StateOther 0, servConnID = 0, srvConnID = 0,
      allocate = (\<lambda>keyID. ([], Some (Opaque ''TCP endpoint allocator is not configured''))),
      endpointGenerator = (\<lambda>keyID. (''https://'' @ keyID @ ''.example.dev'', None)),
      sendURLToConnectUpdatedEvent = None, ticks = [], newCloseNotifier = None,
      waitCloseReturns = False\<rparr>"






text \<open>
  A yamux stream (no \<open>CloseWrite\<close> of its own) and a TCP connection (with one); the
  state counts the calls of \<open>Close\<close>.
\<close>

definition yamux_stream :: "nat netConn" where
  "yamux_stream = Conn (\<lambda>closes. (None, Suc closes)) None"

definition tcp_conn :: "nat netConn" where
  "tcp_conn = Conn (\<lambda>closes. (None, Suc closes)) (Some (\<lambda>closes. (None, closes)))"

section \<open>Properties of the auth repository\<close>

lemma hashSecret_sample:
  "hashSecret sample_scrypt ''test-secret'' ''test-salt''
     = (''sc:dGVzdC1zZWNyZXR0ZXN0LXNhbHQ='', None)"
  by (simp add: hashSecret_def sample_scrypt_def scryptPrefix_def b64_def b64_alphabet_def)

lemma SaveToken_sample:
  "SaveToken sample_scrypt repo0 token0 =
     (None,
      repo0\<lparr>db := \<lparr>kv = [''prefix::API_KEY::test-id''
                            \<mapsto> (''sc:dGVzdC1zZWNyZXR0ZXN0LXNhbHQ='', 60000000000)],
                    fault = None,
                    log = [CmdSetNX ''prefix::API_KEY::test-id''
                             ''sc:dGVzdC1zZWNyZXR0ZXN0LXNhbHQ='' 60000000000]\<rparr>\<rparr>)"
  by (simp add: SaveToken_def repo0_def token0_def hashSecret_sample db_SetNX_def apiKeyPrefix_def
                expire_accepted_def)

text \<open>
  Claim C1: \<open>SaveToken\<close> and \<open>IsKeyExists\<close> address the same stored key, so that
  \<open>IsKeyExists\<close> answers true for the base ID of a token that was saved. The code
  does not: \<open>SaveToken\<close> (as \<open>Verify\<close> and \<open>DeleteToken\<close>) builds the key
  \<open>keyPrefix + apiKeyPrefix + id\<close>, \<open>IsKeyExists\<close> builds \<open>keyPrefix + id\<close>. On the
  empty store, after token \<open>test-id\<close> is saved without error under
  \<open>prefix::API_KEY::test-id\<close>, \<open>IsKeyExists\<close> probes \<open>prefix::test-id\<close> and answers
  false.
\<close>

theorem IsKeyExists_misses_saved_token:
  "fst (SaveToken sample_scrypt repo0 token0) = None \<and>
   kv (db (snd (SaveToken sample_scrypt repo0 token0))) ''prefix::API_KEY::test-id''
     = Some (''sc:dGVzdC1zZWNyZXR0ZXN0LXNhbHQ='', 60000000000) \<and>
   fst (IsKeyExists (snd (SaveToken sample_scrypt repo0 token0)) (ID token0)) = (False, None) \<and>
   last (log (db (snd (IsKeyExists (snd (SaveToken sample_scrypt repo0 token0)) (ID token0)))))
     = CmdExists ''prefix::test-id''"
  by (simp add: SaveToken_sample, simp add: IsKeyExists_def db_Exists_def repo0_def token0_def)

text \<open>
  Claim C6 says that \<open>SaveToken\<close> stores the hash for every token. \<open>SaveToken\<close>
  passes the token's TTL to the store as it is; on the empty store that answers, the
  token with a TTL of minus five seconds gets the store's error back, wrapped, not
  nil and not \<open>DuplicateTokenID\<close>, and nothing is stored.
\<close>

theorem SaveToken_negative_ttl_not_stored:
  "fault (db repo0) = None \<and>
   kv (db repo0) ''prefix::API_KEY::test-id'' = None \<and>
   fst (SaveToken sample_scrypt repo0 token_negative_ttl)
     = Some (Wrap ''failed to save token'' (Opaque ''ERR invalid expire time'')) \<and>
   kv (db (snd (SaveToken sample_scrypt repo0 token_negative_ttl))) ''prefix::API_KEY::test-id''
     = None"
  by (simp add: SaveToken_def repo0_def token_negative_ttl_def hashSecret_def sample_scrypt_def
                db_SetNX_def expire_accepted_def KeepTTL_def)

text \<open>
  Claim C6, amended: for every token whose TTL is not negative, on a store that
  answers, \<open>SaveToken\<close> sends one set-if-absent command with the key
  \<open>keyPrefix + "API_KEY::" + ID\<close>, the value \<open>"sc:" + base64(scrypt(secret, salt,
  2^15, 8, 1, 32))\<close> and the token's TTL; the value is stored when the key held none
  and the store is left as it was otherwise; the result is \<open>DuplicateTokenID\<close>
  exactly when the key already held a value, and nil exactly when it held none.
\<close>

theorem SaveToken_set_if_absent:
  assumes "scrypt (Secret t) (salt r) (2 ^ 15) 8 1 32 = (dk, None)"
    and "fault (db r) = None"
    and "0 \<le> TTL t"
  shows "(fst (SaveToken scrypt r t) = Some ErrDuplicateTokenID
            \<longleftrightarrow> kv (db r) (keyPrefix r @ ''API_KEY::'' @ ID t) \<noteq> None) \<and>
         (fst (SaveToken scrypt r t) = None
            \<longleftrightarrow> kv (db r) (keyPrefix r @ ''API_KEY::'' @ ID t) = None) \<and>
         kv (db (snd (SaveToken scrypt r t))) =
           (if kv (db r) (keyPrefix r @ ''API_KEY::'' @ ID t) = None
            then (kv (db r))(keyPrefix r @ ''API_KEY::'' @ ID t
                               \<mapsto> (''sc:'' @ EncodeToString dk, TTL t))
            else kv (db r)) \<and>
         log (db (snd (SaveToken scrypt r t))) =
           log (db r) @ [CmdSetNX (keyPrefix r @ ''API_KEY::'' @ ID t)
                           (''sc:'' @ EncodeToString dk) (TTL t)]"
  using assms
  by (auto simp: SaveToken_def hashSecret_def db_SetNX_def apiKeyPrefix_def scryptPrefix_def
                 expire_accepted_def
           split: option.splits)

theorem SaveToken_set_if_absent_witness:
  "sample_scrypt (Secret token0) (salt repo0) (2 ^ 15) 8 1 32 = (''test-secrettest-salt'', None) \<and>
   fault (db repo0) = None \<and>
   0 \<le> TTL token0 \<and>
   fault (db (snd (SaveToken sample_scrypt repo0 token0))) = None \<and>
   fst (SaveToken sample_scrypt repo0 token0) = None \<and>
   kv (db (snd (SaveToken sample_scrypt repo0 token0))) ''prefix::API_KEY::test-id''
     = Some (''sc:dGVzdC1zZWNyZXR0ZXN0LXNhbHQ='', 60000000000) \<and>
   fst (SaveToken sample_scrypt (snd (SaveToken sample_scrypt repo0 token0)) token0)
     = Some ErrDuplicateTokenID"
proof -
  let ?r1 = "snd (SaveToken sample_scrypt repo0 token0)"
  have h1: "sample_scrypt (Secret token0) (salt repo0) (2 ^ 15) 8 1 32
              = (''test-secrettest-salt'', None)"
    by (simp add: sample_scrypt_def token0_def repo0_def)
  have h2: "fault (db repo0) = None"
    by (simp add: repo0_def)
  have h3: "0 \<le> TTL token0"
    by (simp add: token0_def)
  have enc: "EncodeToString ''test-secrettest-salt'' = ''dGVzdC1zZWNyZXR0ZXN0LXNhbHQ=''"
    by (simp add: b64_def b64_alphabet_def)
  have absent: "kv (db repo0) (keyPrefix repo0 @ ''API_KEY::'' @ ID token0) = None"
    by (simp add: repo0_def)
  note first = SaveToken_set_if_absent
    [where scrypt = sample_scrypt and r = repo0 and t = token0, OF h1 h2 h3]
  from first absent have ok: "fst (SaveToken sample_scrypt repo0 token0) = None"
    by blast
  from first absent enc
  have stored: "kv (db ?r1) ''prefix::API_KEY::test-id''
                  = Some (''sc:dGVzdC1zZWNyZXR0ZXN0LXNhbHQ='', 60000000000)"
    by (simp add: repo0_def token0_def)
  have h1': "sample_scrypt (Secret token0) (salt ?r1) (2 ^ 15) 8 1 32
               = (''test-secrettest-salt'', None)"
    unfolding SaveToken_sample by (simp add: sample_scrypt_def token0_def repo0_def)
  have h2': "fault (db ?r1) = None"
    unfolding SaveToken_sample by (simp add: repo0_def)
  have present: "kv (db ?r1) (keyPrefix ?r1 @ ''API_KEY::'' @ ID token0) \<noteq> None"
    unfolding SaveToken_sample by (simp add: repo0_def token0_def)
  from SaveToken_set_if_absent
    [where scrypt = sample_scrypt and r = ?r1 and t = token0, OF h1' h2' h3] present
  have dup: "fst (SaveToken sample_scrypt ?r1 token0) = Some ErrDuplicateTokenID"
    by blast
  from h1 h2 h3 h2' ok stored dup show ?thesis by blast
qed

subsection \<open>Type suffixes\<close>

lemma LastIndex_Some: "LastIndex k c = Some i \<Longrightarrow> i < length k \<and> k ! i = c"
  by (induction k arbitrary: i) (auto split: option.splits if_splits)

lemma LastIndex_append2: "d \<noteq> c \<Longrightarrow> LastIndex (xs @ [c, d]) c = Some (length xs)"
  by (induction xs) auto

lemma ExtractIDAndType_Inr_imp:
  assumes "ExtractIDAndType k = Inr p"
  shows "has_valid_type_suffix k"
proof -
  from assms obtain i where i: "LastIndex k (CHR ''-'') = Some i"
    by (auto simp: ExtractIDAndType_def split: option.splits)
  then have il: "i < length k" and ki: "k ! i = CHR ''-''"
    using LastIndex_Some by blast+
  from assms i have suf: "drop (Suc i) k = ''w'' \<or> drop (Suc i) k = ''t''"
    by (auto simp: ExtractIDAndType_def Let_def split: if_splits)
  then have "length (drop (Suc i) k) = length ''w''"
    by (elim disjE) (simp_all only: list.size)
  then have len: "length k = i + 2" using il by simp
  have "drop i k = k ! i # drop (Suc i) k" using il by (simp add: Cons_nth_drop_Suc)
  with suf ki len show ?thesis by (auto simp: has_valid_type_suffix_def)
qed

lemma has_valid_type_suffix_imp:
  assumes "has_valid_type_suffix k"
  shows "\<exists>p. ExtractIDAndType k = Inr p"
proof -
  define xs where "xs = take (length k - 2) k"
  from assms have "k = xs @ ''-w'' \<or> k = xs @ ''-t''"
    unfolding has_valid_type_suffix_def xs_def
    by (metis append_take_drop_id)
  then show ?thesis
    by (auto simp: ExtractIDAndType_def LastIndex_append2 Let_def)
qed

lemma ExtractIDAndType_Inl:
  "ExtractIDAndType k = Inl e \<Longrightarrow> e = ErrInvalidTypeSuffix"
  by (auto simp: ExtractIDAndType_def Let_def split: option.splits if_splits)

lemma ExtractIDAndType_invalid:
  "\<not> has_valid_type_suffix k \<Longrightarrow> ExtractIDAndType k = Inl ErrInvalidTypeSuffix"
  using ExtractIDAndType_Inr_imp ExtractIDAndType_Inl by (cases "ExtractIDAndType k") auto

text \<open>
  Claim C4: for every key ID that does not end in \<open>-w\<close> or \<open>-t\<close> (and a secret that
  \<open>scrypt.Key\<close> hashes, as it does for the pinned cost parameters), \<open>Verify\<close> returns
  a nil token and an error that wraps \<open>InvalidTypeSuffix\<close>, and no command reaches the
  store: the repository is left as it was.
\<close>

theorem Verify_invalid_type_suffix:
  assumes "\<not> has_valid_type_suffix keyID"
    and "snd (scrypt secret (salt r) (2 ^ 15) 8 1 32) = None"
  shows "fst (fst (Verify scrypt r keyID secret)) = None \<and>
         errors_Is (snd (fst (Verify scrypt r keyID secret))) ErrInvalidTypeSuffix \<and>
         log (db (snd (Verify scrypt r keyID secret))) = log (db r) \<and>
         snd (Verify scrypt r keyID secret) = r"
proof -
  from assms(2) obtain dk where "scrypt secret (salt r) (2 ^ 15) 8 1 32 = (dk, None)"
    by (cases "scrypt secret (salt r) (2 ^ 15) 8 1 32") auto
  then have "hashSecret scrypt secret (salt r) = (scryptPrefix @ EncodeToString dk, None)"
    by (simp add: hashSecret_def)
  with ExtractIDAndType_invalid [OF assms(1)]
  have "Verify scrypt r keyID secret =
          ((None, Some (Wrap ''failed to extract token type from key ID'' ErrInvalidTypeSuffix)), r)"
    by (simp add: Verify_def)
  then show ?thesis by (simp add: errors_Is_def)
qed

theorem Verify_invalid_type_suffix_witness:
  "\<not> has_valid_type_suffix ''key123'' \<and>
   snd (sample_scrypt ''secret123'' (salt repo0) (2 ^ 15) 8 1 32) = None \<and>
   fst (fst (Verify sample_scrypt repo0 ''key123'' ''secret123'')) = None \<and>
   errors_Is (snd (fst (Verify sample_scrypt repo0 ''key123'' ''secret123''))) ErrInvalidTypeSuffix \<and>
   log (db (snd (Verify sample_scrypt repo0 ''key123'' ''secret123''))) = []"
proof -
  have h1: "\<not> has_valid_type_suffix ''key123''"
    by (simp add: has_valid_type_suffix_def)
  have h2: "snd (sample_scrypt ''secret123'' (salt repo0) (2 ^ 15) 8 1 32) = None"
    by (simp add: sample_scrypt_def)
  have "log (db repo0) = []" by (simp add: repo0_def)
  with Verify_invalid_type_suffix [where scrypt = sample_scrypt and r = repo0, OF h1 h2] h1 h2
  show ?thesis by simp
qed

text \<open>
  Claim C5 says that \<open>Verify\<close> returns a non-nil error only for store faults. On a
  store without fault, the key ID \<open>key123\<close> (no type suffix) gets a nil token and a
  non-nil error.
\<close>

theorem Verify_error_without_store_fault:
  "fault (db repo0) = None \<and>
   fst (Verify sample_scrypt repo0 ''key123'' ''secret123'')
     = (None, Some (Wrap ''failed to extract token type from key ID'' ErrInvalidTypeSuffix))"
  by (simp add: repo0_def Verify_def hashSecret_def sample_scrypt_def ExtractIDAndType_def)

text \<open>
  Claim C5, amended: for a secret that \<open>scrypt.Key\<close> hashes, \<open>Verify\<close> returns a nil
  token with no error in exactly the bad-credentials cases (the key ID has a valid type
  suffix, the store answers, and it holds no value for the base key ID or a value other
  than the hash of the secret), and it returns a non-nil error exactly when the key ID
  lacks a valid type suffix or the store faults.
\<close>

theorem Verify_outcomes:
  assumes "scrypt secret (salt r) (2 ^ 15) 8 1 32 = (dk, None)"
  shows "(fst (Verify scrypt r keyID secret) = (None, None) \<longleftrightarrow>
            (\<exists>baseID ty. ExtractIDAndType keyID = Inr (baseID, ty) \<and> fault (db r) = None \<and>
               (case kv (db r) (keyPrefix r @ ''API_KEY::'' @ baseID) of
                  None \<Rightarrow> True
                | Some (v, ttl) \<Rightarrow> v \<noteq> ''sc:'' @ EncodeToString dk))) \<and>
         (snd (fst (Verify scrypt r keyID secret)) \<noteq> None \<longleftrightarrow>
            \<not> has_valid_type_suffix keyID \<or> fault (db r) \<noteq> None)"
proof -
  from assms
  have h: "hashSecret scrypt secret (salt r) = (''sc:'' @ EncodeToString dk, None)"
    by (simp add: hashSecret_def scryptPrefix_def)
  show ?thesis
  proof (cases "has_valid_type_suffix keyID")
    case False
    then have "ExtractIDAndType keyID = Inl ErrInvalidTypeSuffix"
      by (rule ExtractIDAndType_invalid)
    with h False show ?thesis
      by (simp add: Verify_def)
  next
    case True
    then obtain baseID ty where "ExtractIDAndType keyID = Inr (baseID, ty)"
      using has_valid_type_suffix_imp by fastforce
    with h True show ?thesis
      by (auto simp: Verify_def db_Get_def apiKeyPrefix_def split: option.splits)
  qed
qed

theorem Verify_outcomes_witness:
  "sample_scrypt ''wrong'' ''test-salt'' (2 ^ 15) 8 1 32 = (''wrongtest-salt'', None) \<and>
   has_valid_type_suffix ''test-id-w'' \<and>
   fst (Verify sample_scrypt repo0 ''test-id-w'' ''wrong'') = (None, None) \<and>
   fst (Verify sample_scrypt (snd (SaveToken sample_scrypt repo0 token0)) ''test-id-w'' ''wrong'')
     = (None, None) \<and>
   fault (db repo_down) \<noteq> None \<and>
   snd (fst (Verify sample_scrypt repo_down ''test-id-w'' ''wrong'')) \<noteq> None"
proof -
  let ?r1 = "snd (SaveToken sample_scrypt repo0 token0)"
  have ext: "ExtractIDAndType ''test-id-w'' = Inr (''test-id'', TokenTypeWeb)"
    by (simp add: ExtractIDAndType_def)
  have valid: "has_valid_type_suffix ''test-id-w''"
    by (simp add: has_valid_type_suffix_def)
  have enc: "EncodeToString ''wrongtest-salt'' = ''d3Jvbmd0ZXN0LXNhbHQ=''"
    by (simp add: b64_def b64_alphabet_def)
  have h0: "sample_scrypt ''wrong'' (salt repo0) (2 ^ 15) 8 1 32 = (''wrongtest-salt'', None)"
    by (simp add: sample_scrypt_def repo0_def)
  have h1: "sample_scrypt ''wrong'' (salt ?r1) (2 ^ 15) 8 1 32 = (''wrongtest-salt'', None)"
    unfolding SaveToken_sample by (simp add: sample_scrypt_def repo0_def)
  have h2: "sample_scrypt ''wrong'' (salt repo_down) (2 ^ 15) 8 1 32 = (''wrongtest-salt'', None)"
    by (simp add: sample_scrypt_def repo_down_def)
  have nokey: "fault (db repo0) = None \<and>
      kv (db repo0) (keyPrefix repo0 @ ''API_KEY::'' @ ''test-id'') = None"
    by (simp add: repo0_def)
  have mismatch: "fault (db ?r1) = None \<and>
      kv (db ?r1) (keyPrefix ?r1 @ ''API_KEY::'' @ ''test-id'')
        = Some (''sc:dGVzdC1zZWNyZXR0ZXN0LXNhbHQ='', 60000000000)"
    unfolding SaveToken_sample by (simp add: repo0_def)
  have down: "fault (db repo_down) \<noteq> None"
    by (simp add: repo_down_def)
  from Verify_outcomes [where scrypt = sample_scrypt and r = repo0, OF h0, of "''test-id-w''"]
       ext nokey
  have a: "fst (Verify sample_scrypt repo0 ''test-id-w'' ''wrong'') = (None, None)"
    by simp
  from Verify_outcomes [where scrypt = sample_scrypt and r = ?r1, OF h1, of "''test-id-w''"]
       ext mismatch enc
  have b: "fst (Verify sample_scrypt ?r1 ''test-id-w'' ''wrong'') = (None, None)"
    by simp
  from Verify_outcomes [where scrypt = sample_scrypt and r = repo_down, OF h2, of "''test-id-w''"]
       down
  have c: "snd (fst (Verify sample_scrypt repo_down ''test-id-w'' ''wrong'')) \<noteq> None"
    by blast
  from h0 valid a b c down show ?thesis by (simp add: repo0_def)
qed

section \<open>Properties of the core service\<close>

lemma pipeToSource_returns_error: "snd (pipeToSource copy) \<noteq> None"
  by (cases copy) (simp add: pipeToSource_def split: option.splits)

lemma pipeToSource_written: "fst (pipeToSource copy) = fst copy"
  by (cases copy) (simp add: pipeToSource_def)

lemma eg_Wait_pipes: "eg_Wait first errDest (snd (pipeToSource copy)) \<noteq> None"
  using pipeToSource_returns_error [of copy]
  by (cases first; cases errDest) (auto simp: eg_Wait_def)

text \<open>
  Claim C2: when \<open>HandleHTTPConnection\<close> reaches its pipes (the request is accepted,
  the reverse stream arrives, the metadata and the buffered request are written) and
  zero bytes are copied back from the reverse stream to the end user, it returns an
  error that wraps \<open>FailedToConnect\<close>, whatever the two copies report, also when
  neither reports an error.
\<close>

theorem HandleHTTPConnection_zero_bytes:
  assumes "snd (requestConnection env) = None"
    and "waitConn env = None"
    and "writeData env = None"
    and "writeInitial env = None"
    and "fst (copyToUser env) = 0"
  shows "fst (HandleHTTPConnection env keyID clientIP)
           = Some (Wrap ''no data written to reverse connection'' ErrFailedToConnect) \<and>
         errors_Is (fst (HandleHTTPConnection env keyID clientIP)) ErrFailedToConnect"
proof -
  obtain reqID where req: "requestConnection env = (reqID, None)"
    using assms(1) by (cases "requestConnection env") auto
  obtain n e where src: "pipeToSource (copyToUser env) = (n, e)"
    by (cases "pipeToSource (copyToUser env)")
  have "n = 0"
    using pipeToSource_written [of "copyToUser env"] src assms(5) by simp
  with assms req src
  have "fst (HandleHTTPConnection env keyID clientIP)
           = Some (Wrap ''no data written to reverse connection'' ErrFailedToConnect)"
    by (simp add: HandleHTTPConnection_def errors_Is_def Let_def)
  then show ?thesis by (simp add: errors_Is_def)
qed

theorem HandleHTTPConnection_zero_bytes_witness:
  "snd (requestConnection env_flowing) = None \<and> waitConn env_flowing = None \<and>
   writeData env_flowing = None \<and> writeInitial env_flowing = None \<and>
   copyToRev env_flowing = (120, None) \<and> copyToUser env_flowing = (0, None) \<and>
   fst (HandleHTTPConnection env_flowing ''demo'' ''10.0.0.1'')
     = Some (Wrap ''no data written to reverse connection'' ErrFailedToConnect) \<and>
   errors_Is (fst (HandleHTTPConnection env_flowing ''demo'' ''10.0.0.1'')) ErrFailedToConnect"
  using HandleHTTPConnection_zero_bytes [of env_flowing "''demo''" "''10.0.0.1''"]
  by (simp add: env_flowing_def errors_Is_def)

text \<open>
  Claim C3: when \<open>RequestConnection\<close> fails with \<open>KeyIDNotFound\<close>, both
  \<open>HandleHTTPConnection\<close> and \<open>HandleTCPConnection\<close> ask \<open>IsKeyExists\<close>; when it
  reports that the key does not exist they return an error that wraps
  \<open>KeyIDNotFound\<close>, when it reports that the key exists an error that wraps
  \<open>FailedToConnect\<close>.
\<close>

theorem KeyIDNotFound_disambiguated:
  assumes "errors_Is (snd (requestConnection env)) ErrKeyIDNotFound"
    and "snd (isKeyExists env) = None"
  shows "errors_Is (fst (HandleHTTPConnection env keyID clientIP))
           (if fst (isKeyExists env) then ErrFailedToConnect else ErrKeyIDNotFound) \<and>
         errors_Is (fst (HandleTCPConnection env keyID clientIP))
           (if fst (isKeyExists env) then ErrFailedToConnect else ErrKeyIDNotFound) \<and>
         AuthIsKeyExists keyID \<in> set (snd (HandleHTTPConnection env keyID clientIP)) \<and>
         AuthIsKeyExists keyID \<in> set (snd (HandleTCPConnection env keyID clientIP))"
  using assms
  by (cases "isKeyExists env"; cases "requestConnection env")
     (simp add: HandleHTTPConnection_def HandleTCPConnection_def errors_Is_def Let_def)

theorem KeyIDNotFound_disambiguated_witness:
  "errors_Is (snd (requestConnection env_unknown_key)) ErrKeyIDNotFound \<and>
   isKeyExists env_unknown_key = (False, None) \<and>
   errors_Is (fst (HandleHTTPConnection env_unknown_key ''ghost'' ''10.0.0.1'')) ErrKeyIDNotFound \<and>
   errors_Is (fst (HandleTCPConnection env_unknown_key ''ghost'' ''10.0.0.1'')) ErrKeyIDNotFound \<and>
   errors_Is (snd (requestConnection env_tunnel_down)) ErrKeyIDNotFound \<and>
   isKeyExists env_tunnel_down = (True, None) \<and>
   errors_Is (fst (HandleHTTPConnection env_tunnel_down ''demo'' ''10.0.0.1'')) ErrFailedToConnect \<and>
   errors_Is (fst (HandleTCPConnection env_tunnel_down ''demo'' ''10.0.0.1'')) ErrFailedToConnect"
  using KeyIDNotFound_disambiguated [of env_unknown_key "''ghost''" "''10.0.0.1''"]
        KeyIDNotFound_disambiguated [of env_tunnel_down "''demo''" "''10.0.0.1''"]
  by (simp add: env_unknown_key_def env_tunnel_down_def env_flowing_def errors_Is_def)

text \<open>
  Claim C9: once \<open>HandleTCPConnection\<close> reaches its pipes it returns nil, whatever the
  two copies report and however many bytes went back to the end user; a pipe error
  other than \<open>ConnClosed\<close> leaves the log line \<open>TCP data pipe closed\<close> and nothing
  else. \<open>HandleHTTPConnection\<close> in the same situation, with no byte copied back,
  returns \<open>FailedToConnect\<close>.
\<close>

theorem HandleTCPConnection_pipe_phase:
  assumes "snd (requestConnection env) = None"
    and "waitConn env = None"
    and "writeData env = None"
  shows "fst (HandleTCPConnection env keyID clientIP) = None \<and>
         (Log Debug ''TCP data pipe closed'' \<in> set (snd (HandleTCPConnection env keyID clientIP))
            \<longleftrightarrow> \<not> errors_Is (eg_Wait (firstReturned env)
                               (pipeToDest (copyToRev env) (closeWriteRev env))
                               (snd (pipeToSource (copyToUser env)))) ErrConnClosed) \<and>
         (writeInitial env = None \<and> fst (copyToUser env) \<le> 0
            \<longrightarrow> errors_Is (fst (HandleHTTPConnection env keyID clientIP)) ErrFailedToConnect)"
proof -
  obtain reqID where req: "requestConnection env = (reqID, None)"
    using assms(1) by (cases "requestConnection env") auto
  obtain n e where src: "pipeToSource (copyToUser env) = (n, e)"
    by (cases "pipeToSource (copyToUser env)")
  have n: "n = fst (copyToUser env)"
    using pipeToSource_written [of "copyToUser env"] src by simp
  have wait: "eg_Wait (firstReturned env) (pipeToDest (copyToRev env) (closeWriteRev env)) e \<noteq> None"
    using eg_Wait_pipes [of "firstReturned env" _ "copyToUser env"] src by simp
  have tcp: "fst (HandleTCPConnection env keyID clientIP) = None"
    using assms req src by (simp add: HandleTCPConnection_def errors_Is_def Let_def)
  have logged:
    "Log Debug ''TCP data pipe closed'' \<in> set (snd (HandleTCPConnection env keyID clientIP))
       \<longleftrightarrow> \<not> errors_Is (eg_Wait (firstReturned env)
                          (pipeToDest (copyToRev env) (closeWriteRev env))
                          (snd (pipeToSource (copyToUser env)))) ErrConnClosed"
    using assms req src wait by (simp add: HandleTCPConnection_def Let_def errors_Is_def)
  have http: "writeInitial env = None \<and> fst (copyToUser env) \<le> 0
            \<longrightarrow> errors_Is (fst (HandleHTTPConnection env keyID clientIP)) ErrFailedToConnect"
    using assms req src n by (simp add: HandleHTTPConnection_def Let_def errors_Is_def)
  from tcp logged http show ?thesis by blast
qed

theorem HandleTCPConnection_pipe_phase_witness:
  "snd (requestConnection env_broken_pipe) = None \<and> waitConn env_broken_pipe = None \<and>
   writeData env_broken_pipe = None \<and> writeInitial env_broken_pipe = None \<and>
   copyToUser env_broken_pipe = (0, None) \<and>
   copyToRev env_broken_pipe = (3, Some (Opaque ''broken pipe'')) \<and>
   fst (HandleTCPConnection env_broken_pipe ''db'' ''10.0.0.1'') = None \<and>
   Log Debug ''TCP data pipe closed''
     \<in> set (snd (HandleTCPConnection env_broken_pipe ''db'' ''10.0.0.1'')) \<and>
   errors_Is (fst (HandleHTTPConnection env_broken_pipe ''db'' ''10.0.0.1'')) ErrFailedToConnect"
  using HandleTCPConnection_pipe_phase [of env_broken_pipe "''db''" "''10.0.0.1''"]
  by (simp add: env_broken_pipe_def env_flowing_def eg_Wait_def pipeToDest_def pipeToSource_def
                errors_Is_def)

text \<open>
  Claim C10: when the handshake processing of a reverse connection fails (for bad
  credentials as for any other reason), \<open>HandleReverseConn\<close> returns nil, and it calls
  neither \<open>AddConnection\<close> nor \<open>ResolveRequest\<close> on a connection manager.
\<close>

theorem HandleReverseConn_process_failed:
  assumes "processErr env \<noteq> None"
  shows "fst (HandleReverseConn env) = Some None \<and>
         filter registers (snd (HandleReverseConn env)) = []"
  using assms
  by (auto simp: HandleReverseConn_def userPassAuth_def Let_def split: option.splits prod.splits)

theorem HandleReverseConn_process_failed_witness:
  "processErr env_bad_credentials \<noteq> None \<and>
   fst (userPassAuth env_bad_credentials ''demo-w'' ''wrong'') = False \<and>
   HandleReverseConn env_bad_credentials =
     (Some None, [Log Debug ''new connection'', Process, AuthVerify ''demo-w'' ''wrong'',
                  Log Debug ''failed to process connection'', Log Debug ''closing connection'']) \<and>
   filter registers (snd (HandleReverseConn env_bad_credentials)) = []"
  using HandleReverseConn_process_failed [of env_bad_credentials]
  by (simp add: env_bad_credentials_def HandleReverseConn_def userPassAuth_def
                timeoutContext_def connectionTimeout_def Second_def)

lemma pingLoop_no_close: "CloseRevConn \<notin> set (snd (pingLoop ts))"
  by (induction ts rule: pingLoop.induct) (auto split: prod.splits)

lemma userPassAuth_no_close:
  "userPassAuth env keyID secret = (ok, a, evs) \<Longrightarrow> CloseRevConn \<notin> set evs"
  by (auto simp: userPassAuth_def Let_def split: prod.splits if_splits)

lemma HandleReverseConn_leaves_transport_open:
  "CloseRevConn \<notin> set (snd (HandleReverseConn env))"
proof -
  define X where "X = (case credentials env of
               None \<Rightarrow> (None, [])
             | Some (keyID, secret) \<Rightarrow>
                 (case userPassAuth env keyID secret of (ok, a, evs) \<Rightarrow> (a, evs)))"
  obtain assigned authEvents where X: "X = (assigned, authEvents)"
    by (cases X)
  have "CloseRevConn \<notin> set (snd X)"
    by (auto simp: X_def split: option.splits prod.splits dest: userPassAuth_no_close)
  with X have a: "CloseRevConn \<notin> set authEvents"
    by simp
  note p = pingLoop_no_close [of "ticks env"]
  show ?thesis
  proof (cases "processErr env")
    case (Some e)
    then show ?thesis
      using a X unfolding HandleReverseConn_def X_def [symmetric]
      by (simp add: Let_def)
  next
    case None
    show ?thesis
    proof (cases "State env")
      case StateRegistered
      then show ?thesis
        using a p X None unfolding HandleReverseConn_def X_def [symmetric]
        by (simp add: Let_def case_prod_beta split: option.splits)
    next
      case StateBound
      then show ?thesis
        using a X None unfolding HandleReverseConn_def X_def [symmetric]
        by (simp add: Let_def split: option.splits)
    next
      case (StateOther n)
      then show ?thesis
        using a X None unfolding HandleReverseConn_def X_def [symmetric]
        by (simp add: Let_def)
    qed
  qed
qed







section \<open>Properties of the half-close wrappers\<close>

text \<open>
  Claim C8: for a connection that has no \<open>CloseWrite\<close> of its own, the client's
  \<open>wrapConn\<close> and the server's \<open>yamuxStreamWrapper\<close> give a connection whose
  \<open>CloseWrite\<close> is the \<open>Close\<close> of the connection underneath; \<open>wrapConn\<close> returns a
  connection that has \<open>CloseWrite\<close> as it is.
\<close>

theorem CloseWrite_delegates_to_Close:
  "(CloseWrite c = None \<longrightarrow> CloseWrite (wrapConn c) = Some (Close c)) \<and>
   (CloseWrite c = None \<longrightarrow> CloseWrite (yamuxStreamWrapper c) = Some (Close c)) \<and>
   (CloseWrite c \<noteq> None \<longrightarrow> wrapConn c = c)"
  by (auto simp: wrapConn_def)

theorem CloseWrite_delegates_to_Close_witness:
  "CloseWrite yamux_stream = None \<and>
   CloseWrite (wrapConn yamux_stream) = Some (Close yamux_stream) \<and>
   CloseWrite (yamuxStreamWrapper yamux_stream) = Some (Close yamux_stream) \<and>
   Close yamux_stream 0 = (None, 1) \<and>
   CloseWrite tcp_conn \<noteq> None \<and> wrapConn tcp_conn = tcp_conn"
  using CloseWrite_delegates_to_Close [of yamux_stream] CloseWrite_delegates_to_Close [of tcp_conn]
  by (simp add: yamux_stream_def tcp_conn_def)

end
